theory Spec2Isabelle
  imports Main "HOL-Library.Multiset"
begin

section \<open>Python values used by the application\<close>

text \<open>
  The application is one Flask module, \<^verbatim>\<open>app.py\<close>. Its text values are Python strings;
  here a string is a \<^typ>\<open>string\<close> whose characters stand for the code points below 256,
  so every statement below is about texts in that range. Python integers are unbounded
  and are modelled by \<^typ>\<open>int\<close>.

  An exception is a value: its class name and the text \<^verbatim>\<open>str(e)\<close>.
\<close>

datatype exn = Exn (exn_class: string) (exn_str: string)

subsection \<open>Decimal text of integers: \<^verbatim>\<open>str(n)\<close>\<close>

definition digit_char :: "nat \<Rightarrow> char" where
  "digit_char d = ''0123456789'' ! d"

fun str_of_nat :: "nat \<Rightarrow> string" where
  "str_of_nat n = (if n < 10 then [digit_char n] else str_of_nat (n div 10) @ [digit_char (n mod 10)])"

declare str_of_nat.simps [simp del]

definition str_of_int :: "int \<Rightarrow> string" where
  "str_of_int i = (if i < 0 then CHR ''-'' # str_of_nat (nat (- i)) else str_of_nat (nat i))"

subsection \<open>Whitespace and \<^verbatim>\<open>str.strip()\<close>\<close>

text \<open>
  \<^verbatim>\<open>str.isspace\<close> holds, below 256, for the code points 9 to 13, 28 to 32, 133 and 160.
\<close>

definition is_space :: "char \<Rightarrow> bool" where
  "is_space c = (let k = (of_char c :: nat) in (9 \<le> k \<and> k \<le> 13) \<or> (28 \<le> k \<and> k \<le> 32) \<or> k = 133 \<or> k = 160)"

definition strip :: "string \<Rightarrow> string" where
  "strip s = rev (dropWhile is_space (rev (dropWhile is_space s)))"

subsection \<open>The builtin \<^verbatim>\<open>int(text)\<close>\<close>

definition is_digit :: "char \<Rightarrow> bool" where
  "is_digit c = (let k = (of_char c :: nat) in 48 \<le> k \<and> k \<le> 57)"

definition digit_val :: "char \<Rightarrow> nat" where
  "digit_val c = of_char c - 48"

definition nat_of_digits :: "string \<Rightarrow> nat" where
  "nat_of_digits ds = foldl (\<lambda>acc c. 10 * acc + digit_val c) 0 ds"

text \<open>
  Base 10 literals: decimal digits, where single underscores may stand between two digits.
\<close>

fun digits_ok :: "string \<Rightarrow> bool" where
  "digits_ok [] = False"
| "digits_ok [c] = is_digit c"
| "digits_ok (c # d # r) = (is_digit c \<and> (if d = CHR ''_'' then digits_ok r else digits_ok (d # r)))"

definition int_of_str :: "string \<Rightarrow> int option" where
  "int_of_str s =
     (let t = strip s;
          neg = (case t of c # _ \<Rightarrow> c = CHR ''-'' | [] \<Rightarrow> False);
          body = (case t of c # r \<Rightarrow> (if c = CHR ''-'' \<or> c = CHR ''+'' then r else t) | [] \<Rightarrow> [])
      in if digits_ok body
         then (let n = int (nat_of_digits (filter (\<lambda>c. c \<noteq> CHR ''_'') body)) in Some (if neg then - n else n))
         else None)"

subsection \<open>\<^verbatim>\<open>repr\<close> of a string\<close>

text \<open>
  \<^verbatim>\<open>repr(s)\<close> quotes with an apostrophe unless the text holds an apostrophe and no double
  quote, escapes the backslash, the chosen quote, tab, line feed and carriage return, and
  writes every other code point that is not printable as \<^verbatim>\<open>\xhh\<close>. Below 256 the printable
  code points are 32 to 126 and 161 to 255 without 173.
\<close>

definition is_printable :: "char \<Rightarrow> bool" where
  "is_printable c = (let k = (of_char c :: nat) in (32 \<le> k \<and> k \<le> 126) \<or> (161 \<le> k \<and> k \<noteq> 173))"

definition hex_char :: "nat \<Rightarrow> char" where
  "hex_char d = ''0123456789abcdef'' ! d"

definition repr_char :: "char \<Rightarrow> char \<Rightarrow> string" where
  "repr_char q c =
     (if c = CHR 0x5C then [CHR 0x5C, CHR 0x5C]
      else if c = q then [CHR 0x5C, q]
      else if c = CHR 0x09 then [CHR 0x5C, CHR ''t'']
      else if c = CHR 0x0A then [CHR 0x5C, CHR ''n'']
      else if c = CHR 0x0D then [CHR 0x5C, CHR ''r'']
      else if is_printable c then [c]
      else [CHR 0x5C, CHR ''x'', hex_char (of_char c div 16), hex_char (of_char c mod 16)])"

definition repr_str :: "string \<Rightarrow> string" where
  "repr_str s =
     (let q = (if CHR 0x27 \<in> set s \<and> CHR 0x22 \<notin> set s then CHR 0x22 else CHR 0x27)
      in [q] @ concat (map (repr_char q) s) @ [q])"

section \<open>JSON values and the response decoder\<close>

text \<open>
  \<^verbatim>\<open>json.loads\<close> returns \<^verbatim>\<open>None\<close>, a \<^verbatim>\<open>bool\<close>, an \<^verbatim>\<open>int\<close>, a \<^verbatim>\<open>float\<close>, a \<^verbatim>\<open>str\<close>, a
  \<^verbatim>\<open>list\<close> or a \<^verbatim>\<open>dict\<close>. A finite float is kept as its exact value: \<open>Finite neg m e\<close> is
  \<open>m * 2 ^ e\<close>, negated when \<open>neg\<close>. A \<^verbatim>\<open>dict\<close> is the list of its items in insertion order.
\<close>

datatype pyfloat = Finite bool nat int | Infinite bool | NaN

datatype json =
    JNull
  | JBool bool
  | JInt int
  | JFloat pyfloat
  | JStr string
  | JArr "json list"
  | JObj "(string \<times> json) list"

fun type_name :: "json \<Rightarrow> string" where
  "type_name JNull = ''NoneType''"
| "type_name (JBool b) = ''bool''"
| "type_name (JInt n) = ''int''"
| "type_name (JFloat f) = ''float''"
| "type_name (JStr s) = ''str''"
| "type_name (JArr xs) = ''list''"
| "type_name (JObj kvs) = ''dict''"

definition quoted :: "string \<Rightarrow> string" where
  "quoted s = [CHR 0x27] @ s @ [CHR 0x27]"

subsection \<open>\<^verbatim>\<open>dict\<close> operations\<close>

fun dict_set :: "('k \<times> 'v) list \<Rightarrow> 'k \<Rightarrow> 'v \<Rightarrow> ('k \<times> 'v) list" where
  "dict_set [] k v = [(k, v)]"
| "dict_set ((k', v') # d) k v = (if k' = k then (k, v) # d else (k', v') # dict_set d k v)"

definition dict_get :: "(string \<times> json) list \<Rightarrow> string \<Rightarrow> json \<Rightarrow> json" where
  "dict_get d k dflt = (case map_of d k of None \<Rightarrow> dflt | Some v \<Rightarrow> v)"

text \<open>
  \<^verbatim>\<open>parsed.get(key, default)\<close>: only a \<^verbatim>\<open>dict\<close> has the method; on every other decoded value
  the attribute lookup raises \<^verbatim>\<open>AttributeError\<close>.
\<close>

definition py_get :: "json \<Rightarrow> string \<Rightarrow> json \<Rightarrow> exn + json" where
  "py_get parsed k dflt =
     (case parsed of
        JObj d \<Rightarrow> Inr (dict_get d k dflt)
      | _ \<Rightarrow> Inl (Exn ''AttributeError''
                 (quoted (type_name parsed) @ '' object has no attribute '' @ quoted ''get'')))"

subsection \<open>The builtin \<^verbatim>\<open>int(x)\<close>\<close>

definition float_trunc :: "bool \<Rightarrow> nat \<Rightarrow> int \<Rightarrow> int" where
  "float_trunc neg m e =
     (let a = (if 0 \<le> e then m * 2 ^ nat e else m div 2 ^ nat (- e))
      in if neg then - int a else int a)"

fun py_int :: "json \<Rightarrow> exn + int" where
  "py_int (JInt n) = Inr n"
| "py_int (JBool b) = Inr (if b then 1 else 0)"
| "py_int (JFloat (Finite neg m e)) = Inr (float_trunc neg m e)"
| "py_int (JFloat (Infinite neg)) = Inl (Exn ''OverflowError'' ''cannot convert float infinity to integer'')"
| "py_int (JFloat NaN) = Inl (Exn ''ValueError'' ''cannot convert float NaN to integer'')"
| "py_int (JStr s) =
     (case int_of_str s of
        Some n \<Rightarrow> Inr n
      | None \<Rightarrow> Inl (Exn ''ValueError''
                  (''invalid literal for int() with base 10: '' @ take 200 (repr_str s))))"
| "py_int v =
     Inl (Exn ''TypeError''
       (''int() argument must be a string, a bytes-like object or a real number, not ''
        @ quoted (type_name v)))"

subsection \<open>Outcome of a decoder call\<close>

text \<open>
  A call of \<^verbatim>\<open>json.loads\<close> returns a value, raises \<^verbatim>\<open>json.JSONDecodeError\<close>, or raises
  another exception (for instance \<^verbatim>\<open>RecursionError\<close> on nesting deeper than the interpreter
  allows).
\<close>

datatype 'a decoded = Decoded 'a | JSONDecodeError | Raised exn

subsection \<open>Numbers\<close>

fun bit_length :: "nat \<Rightarrow> nat" where
  "bit_length n = (if n = 0 then 0 else Suc (bit_length (n div 2)))"

declare bit_length.simps [simp del]

definition round_half_even :: "nat \<Rightarrow> nat \<Rightarrow> nat" where
  "round_half_even n d =
     (let q = n div d; r = n mod d
      in if 2 * r < d then q else if d < 2 * r then q + 1 else if even q then q else q + 1)"

text \<open>
  The float nearest to \<open>D * 10 ^ E\<close> (ties to the even significand, 53 bits, exponents
  from \<open>-1074\<close>, overflow to infinity), as \<^verbatim>\<open>float(text)\<close> rounds a decimal literal.
\<close>

definition float_of_decimal :: "bool \<Rightarrow> nat \<Rightarrow> int \<Rightarrow> pyfloat" where
  "float_of_decimal neg D E =
     (if D = 0 then Finite neg 0 0
      else
        let n = D * 10 ^ nat E;
            d = 10 ^ nat (- E);
            b = int (bit_length n) - int (bit_length d);
            l = (if d * 2 ^ nat b \<le> n * 2 ^ nat (- b) then b else b - 1);
            e = max (l - 52) (- 1074);
            m = round_half_even (n * 2 ^ nat (- e)) (d * 2 ^ nat e)
        in if 0 \<le> e \<and> 2 ^ 1024 \<le> m * 2 ^ nat e then Infinite neg else Finite neg m e)"

text \<open>
  A number literal is \<^verbatim>\<open>-?(0|[1-9][0-9]*)(\.[0-9]+)?([eE][-+]?[0-9]+)?\<close>; without fraction
  and exponent it is an \<^verbatim>\<open>int\<close>, otherwise a \<^verbatim>\<open>float\<close>.
\<close>

definition span_digits :: "string \<Rightarrow> string \<times> string" where
  "span_digits s = (takeWhile is_digit s, dropWhile is_digit s)"

definition scan_fraction :: "string \<Rightarrow> string \<times> string" where
  "scan_fraction s =
     (case s of
        c # d # r \<Rightarrow> (if c = CHR ''.'' \<and> is_digit d then span_digits (d # r) else ([], s))
      | _ \<Rightarrow> ([], s))"

definition scan_exponent :: "string \<Rightarrow> (bool \<times> string) option \<times> string" where
  "scan_exponent s =
     (case s of
        c # r \<Rightarrow>
          (if c = CHR ''e'' \<or> c = CHR ''E'' then
             (let neg = (case r of x # _ \<Rightarrow> x = CHR ''-'' | [] \<Rightarrow> False);
                  r' = (case r of x # y \<Rightarrow> (if x = CHR ''-'' \<or> x = CHR ''+'' then y else r) | [] \<Rightarrow> r);
                  (ds, rest) = span_digits r'
              in if ds = [] then (None, s) else (Some (neg, ds), rest))
           else (None, s))
      | [] \<Rightarrow> (None, s))"

definition match_number :: "string \<Rightarrow> (json \<times> string) option" where
  "match_number s =
     (let neg = (case s of c # _ \<Rightarrow> c = CHR ''-'' | [] \<Rightarrow> False);
          s1 = (if neg then tl s else s)
      in case s1 of
           [] \<Rightarrow> None
         | c # r \<Rightarrow>
             (if \<not> is_digit c then None
              else
                let (ds, rest) = (if c = CHR ''0'' then ([c], r) else span_digits s1);
                    (fr, rest2) = scan_fraction rest;
                    (ex, rest3) = scan_exponent rest2
                in if fr = [] \<and> ex = None
                   then Some (JInt (if neg then - int (nat_of_digits ds) else int (nat_of_digits ds)), rest3)
                   else
                     let x = (case ex of
                                None \<Rightarrow> 0
                              | Some (eneg, eds) \<Rightarrow>
                                  (if eneg then - int (nat_of_digits eds) else int (nat_of_digits eds)))
                     in Some (JFloat (float_of_decimal neg (nat_of_digits (ds @ fr)) (x - int (length fr))),
                              rest3)))"

subsection \<open>Strings\<close>

definition hex_val :: "char \<Rightarrow> nat option" where
  "hex_val c =
     (let k = (of_char c :: nat)
      in if 48 \<le> k \<and> k \<le> 57 then Some (k - 48)
         else if 97 \<le> k \<and> k \<le> 102 then Some (k - 87)
         else if 65 \<le> k \<and> k \<le> 70 then Some (k - 55)
         else None)"

definition unescape :: "char \<Rightarrow> char option" where
  "unescape c =
     (if c = CHR 0x22 \<or> c = CHR 0x5C \<or> c = CHR ''/'' then Some c
      else if c = CHR ''b'' then Some (CHR 0x08)
      else if c = CHR ''f'' then Some (CHR 0x0C)
      else if c = CHR ''n'' then Some (CHR 0x0A)
      else if c = CHR ''r'' then Some (CHR 0x0D)
      else if c = CHR ''t'' then Some (CHR 0x09)
      else None)"

text \<open>
  The text after the opening quote, up to the closing one. A raw control character, an
  unknown escape, a malformed \<^verbatim>\<open>\uXXXX\<close> and a missing closing quote are decode errors. An
  escape that names a code point from 256 on denotes a text outside the character range of
  this development; the decoder marks it as \<open>Raised (Exn ''OutOfRange'' _)\<close>, which is no
  outcome of the library.
\<close>

fun scanstring :: "string \<Rightarrow> string \<Rightarrow> (string \<times> string) decoded" where
  "scanstring acc [] = JSONDecodeError"
| "scanstring acc (c # r) =
     (if c = CHR 0x22 then Decoded (acc, r)
      else if c = CHR 0x5C then
        (case r of
           [] \<Rightarrow> JSONDecodeError
         | x # r' \<Rightarrow>
             (if x = CHR ''u'' then
                (case r' of
                   h1 # h2 # h3 # h4 # r'' \<Rightarrow>
                     (case (hex_val h1, hex_val h2, hex_val h3, hex_val h4) of
                        (Some a, Some b, Some c', Some d) \<Rightarrow>
                          (let cp = ((a * 16 + b) * 16 + c') * 16 + d
                           in if cp < 256 then scanstring (acc @ [char_of cp]) r''
                              else Raised (Exn ''OutOfRange'' ''code point above 255''))
                      | _ \<Rightarrow> JSONDecodeError)
                 | _ \<Rightarrow> JSONDecodeError)
              else
                (case unescape x of
                   Some y \<Rightarrow> scanstring (acc @ [y]) r'
                 | None \<Rightarrow> JSONDecodeError)))
      else if (of_char c :: nat) < 32 then JSONDecodeError
      else scanstring (acc @ [c]) r)"

subsection \<open>Values, arrays and objects\<close>

definition is_json_ws :: "char \<Rightarrow> bool" where
  "is_json_ws c = (c = CHR '' '' \<or> c = CHR 0x09 \<or> c = CHR 0x0A \<or> c = CHR 0x0D)"

definition skip_ws :: "string \<Rightarrow> string" where
  "skip_ws s = dropWhile is_json_ws s"

definition starts_with :: "string \<Rightarrow> string \<Rightarrow> bool" where
  "starts_with p s = (take (length p) s = p)"

definition dict_of_pairs :: "(string \<times> json) list \<Rightarrow> (string \<times> json) list" where
  "dict_of_pairs ps = foldl (\<lambda>d (k, v). dict_set d k v) [] ps"

text \<open>
  The scanner and its two loops (the items of a list, the members of an object). The first
  argument bounds the number of nested calls and makes the recursion structural; with the
  bound exhausted the decoder stops with \<^verbatim>\<open>RecursionError\<close>.
\<close>

fun scan_once :: "nat \<Rightarrow> string \<Rightarrow> (json \<times> string) decoded"
  and parse_array :: "nat \<Rightarrow> json list \<Rightarrow> string \<Rightarrow> (json \<times> string) decoded"
  and parse_object :: "nat \<Rightarrow> (string \<times> json) list \<Rightarrow> string \<Rightarrow> (json \<times> string) decoded"
where
  "scan_once 0 s = Raised (Exn ''RecursionError'' ''maximum recursion depth exceeded'')"
| "scan_once (Suc n) s =
     (case s of
        [] \<Rightarrow> JSONDecodeError
      | c # r \<Rightarrow>
          (if c = CHR 0x22 then
             (case scanstring [] r of
                Decoded (t, r') \<Rightarrow> Decoded (JStr t, r')
              | JSONDecodeError \<Rightarrow> JSONDecodeError
              | Raised e \<Rightarrow> Raised e)
           else if c = CHR ''{'' then
             (case skip_ws r of
                [] \<Rightarrow> JSONDecodeError
              | x # r' \<Rightarrow> (if x = CHR ''}'' then Decoded (JObj [], r') else parse_object n [] (x # r')))
           else if c = CHR ''['' then
             (case skip_ws r of
                [] \<Rightarrow> JSONDecodeError
              | x # r' \<Rightarrow> (if x = CHR '']'' then Decoded (JArr [], r') else parse_array n [] (x # r')))
           else if starts_with ''null'' s then Decoded (JNull, drop 4 s)
           else if starts_with ''true'' s then Decoded (JBool True, drop 4 s)
           else if starts_with ''false'' s then Decoded (JBool False, drop 5 s)
           else if starts_with ''NaN'' s then Decoded (JFloat NaN, drop 3 s)
           else if starts_with ''Infinity'' s then Decoded (JFloat (Infinite False), drop 8 s)
           else if starts_with ''-Infinity'' s then Decoded (JFloat (Infinite True), drop 9 s)
           else (case match_number s of Some vr \<Rightarrow> Decoded vr | None \<Rightarrow> JSONDecodeError)))"
| "parse_array 0 acc s = Raised (Exn ''RecursionError'' ''maximum recursion depth exceeded'')"
| "parse_array (Suc n) acc s =
     (case scan_once n s of
        Decoded (v, r) \<Rightarrow>
          (case skip_ws r of
             [] \<Rightarrow> JSONDecodeError
           | x # r' \<Rightarrow>
               (if x = CHR '']'' then Decoded (JArr (acc @ [v]), r')
                else if x = CHR '','' then parse_array n (acc @ [v]) (skip_ws r')
                else JSONDecodeError))
      | JSONDecodeError \<Rightarrow> JSONDecodeError
      | Raised e \<Rightarrow> Raised e)"
| "parse_object 0 acc s = Raised (Exn ''RecursionError'' ''maximum recursion depth exceeded'')"
| "parse_object (Suc n) acc s =
     (case s of
        [] \<Rightarrow> JSONDecodeError
      | q # r0 \<Rightarrow>
          (if q \<noteq> CHR 0x22 then JSONDecodeError
           else
             (case scanstring [] r0 of
                Decoded (k, r1) \<Rightarrow>
                  (case skip_ws r1 of
                     [] \<Rightarrow> JSONDecodeError
                   | col # r2 \<Rightarrow>
                       (if col \<noteq> CHR '':'' then JSONDecodeError
                        else
                          (case scan_once n (skip_ws r2) of
                             Decoded (v, r3) \<Rightarrow>
                               (case skip_ws r3 of
                                  [] \<Rightarrow> JSONDecodeError
                                | x # r4 \<Rightarrow>
                                    (if x = CHR ''}'' then Decoded (JObj (dict_of_pairs (acc @ [(k, v)])), r4)
                                     else if x = CHR '','' then parse_object n (acc @ [(k, v)]) (skip_ws r4)
                                     else JSONDecodeError))
                           | JSONDecodeError \<Rightarrow> JSONDecodeError
                           | Raised e \<Rightarrow> Raised e)))
              | JSONDecodeError \<Rightarrow> JSONDecodeError
              | Raised e \<Rightarrow> Raised e)))"

text \<open>
  \<^verbatim>\<open>json.loads(s)\<close> for a \<^verbatim>\<open>str\<close>: leading white space, one value, trailing white space,
  and nothing else.
\<close>

definition json_decode :: "string \<Rightarrow> json decoded" where
  "json_decode s =
     (case scan_once (2 * length s + 2) (skip_ws s) of
        Decoded (v, r) \<Rightarrow> (if skip_ws r = [] then Decoded v else JSONDecodeError)
      | JSONDecodeError \<Rightarrow> JSONDecodeError
      | Raised e \<Rightarrow> Raised e)"

section \<open>The libraries the application calls\<close>

text \<open>
  The application calls code that is not its own: the generative model behind
  \<^verbatim>\<open>google.generativeai\<close>, \<^verbatim>\<open>json.loads\<close>, \<^verbatim>\<open>werkzeug\<close>'s \<^verbatim>\<open>secure_filename\<close>, and \<^verbatim>\<open>repr\<close> of a
  \<^verbatim>\<open>float\<close>. A request runs against one \<open>library\<close>:

  \<^item> \<open>generate_content\<close> is what lines 56 to 64 of \<^verbatim>\<open>app.py\<close> do with the prompt: building the
    model object, the remote call and reading the text of the response either yield the
    response text or raise;
  \<^item> \<open>json_loads\<close> is the decoder; its grammar is \<^const>\<open>json_decode\<close>, and the interpreter may add
    failures of its own (nesting or integer literals beyond its limits), so the
    application is modelled against any decoder;
  \<^item> \<open>secure_filename\<close> is the sanitiser of upload names;
  \<^item> \<open>float_repr\<close> is the text of a float.
\<close>

record library =
  generate_content :: "string \<Rightarrow> exn + string"
  json_loads :: "string \<Rightarrow> json decoded"
  secure_filename :: "string \<Rightarrow> string"
  float_repr :: "pyfloat \<Rightarrow> string"

section \<open>The scoring adapter: \<^verbatim>\<open>analyze_resume_with_ai\<close>\<close>

definition nl :: string where
  "nl = [CHR 0x0A]"

text \<open>The f-string of lines 57 to 62, with its line breaks and indentation.\<close>

definition prompt :: "string \<Rightarrow> string" where
  "prompt skills_text =
     nl @ ''        Analyze the following skills: '' @ skills_text
     @ nl @ ''        - Give a score from 0 to 100 (higher = better fit for software engineering roles)''
     @ nl @ ''        - Suggest the most suitable job role''
     @ nl @ ''        Respond in JSON: {'' @ [CHR 0x22] @ ''score'' @ [CHR 0x22] @ '': number, ''
     @ [CHR 0x22] @ ''best_role'' @ [CHR 0x22] @ '': '' @ [CHR 0x22] @ ''string'' @ [CHR 0x22] @ ''}''
     @ nl @ ''        ''"

text \<open>Sequencing of steps that may raise: the first exception ends the block.\<close>

definition bind_exn :: "exn + 'a \<Rightarrow> ('a \<Rightarrow> exn + 'b) \<Rightarrow> exn + 'b" where
  "bind_exn r f = (case r of Inl e \<Rightarrow> Inl e | Inr x \<Rightarrow> f x)"

text \<open>
  Lines 67 to 73: the inner \<^verbatim>\<open>try\<close>. Only \<^verbatim>\<open>json.JSONDecodeError\<close> is handled here; every other
  exception of the three statements leaves the block.
\<close>

definition parse_content :: "library \<Rightarrow> string \<Rightarrow> exn + (int \<times> json)" where
  "parse_content lib content =
     (case json_loads lib content of
        Decoded parsed \<Rightarrow>
          bind_exn (py_get parsed ''score'' (JInt 50)) (\<lambda>v.
          bind_exn (py_int v) (\<lambda>score.
          bind_exn (py_get parsed ''best_role'' (JStr ''Generalist'')) (\<lambda>best_role.
          Inr (score, best_role))))
      | JSONDecodeError \<Rightarrow> Inr (50, JStr ''Unknown'')
      | Raised e \<Rightarrow> Inl e)"

text \<open>Lines 56 to 75: the body of the outer \<^verbatim>\<open>try\<close>.\<close>

definition analyze_body :: "library \<Rightarrow> string \<Rightarrow> exn + (int \<times> json \<times> string)" where
  "analyze_body lib skills_text =
     bind_exn (generate_content lib (prompt skills_text)) (\<lambda>content.
     bind_exn (parse_content lib content) (\<lambda>(score, best_role).
     Inr (score, best_role, content)))"

text \<open>
  The function: \<^verbatim>\<open>except Exception as e\<close> turns every exception of the body into the
  failure triple. The result type keeps the possibility of an exception that reaches the
  caller, so that its absence is a statement.
\<close>

definition analyze_resume_with_ai :: "library \<Rightarrow> string \<Rightarrow> exn + (int \<times> json \<times> string)" where
  "analyze_resume_with_ai lib skills_text =
     (case analyze_body lib skills_text of
        Inr r \<Rightarrow> Inr r
      | Inl e \<Rightarrow> Inr (0, JStr ''AI Processing Failed'', ''AI Error: '' @ exn_str e))"

text \<open>
  A library for running examples: the model answers every prompt with the given text (or
  fails with the given exception), the decoder is \<^const>\<open>json_decode\<close>, upload names are
  taken as they are, and the text of a float is not looked at.
\<close>

definition answering :: "exn + string \<Rightarrow> library" where
  "answering r =
     \<lparr> generate_content = (\<lambda>p. r), json_loads = json_decode,
       secure_filename = (\<lambda>n. n), float_repr = (\<lambda>f. ''float'') \<rparr>"

section \<open>Text of values: \<^verbatim>\<open>repr\<close>, \<^verbatim>\<open>str\<close> and a cell of the csv writer\<close>

fun join :: "string \<Rightarrow> string list \<Rightarrow> string" where
  "join sep [] = []"
| "join sep [x] = x"
| "join sep (x # y # r) = x @ sep @ join sep (y # r)"

fun py_repr :: "(pyfloat \<Rightarrow> string) \<Rightarrow> json \<Rightarrow> string" where
  "py_repr fr JNull = ''None''"
| "py_repr fr (JBool b) = (if b then ''True'' else ''False'')"
| "py_repr fr (JInt n) = str_of_int n"
| "py_repr fr (JFloat f) = fr f"
| "py_repr fr (JStr s) = repr_str s"
| "py_repr fr (JArr xs) = ''['' @ join '', '' (map (py_repr fr) xs) @ '']''"
| "py_repr fr (JObj kvs) =
     ''{'' @ join '', '' (map (\<lambda>kv. repr_str (fst kv) @ '': '' @ py_repr fr (snd kv)) kvs) @ ''}''"

definition py_str :: "library \<Rightarrow> json \<Rightarrow> string" where
  "py_str lib v = (case v of JStr s \<Rightarrow> s | _ \<Rightarrow> py_repr (float_repr lib) v)"

text \<open>The csv writer writes \<^verbatim>\<open>None\<close> as the empty text and every other value as \<^verbatim>\<open>str\<close> does.\<close>

definition csv_cell :: "library \<Rightarrow> json \<Rightarrow> string" where
  "csv_cell lib v = (case v of JNull \<Rightarrow> [] | _ \<Rightarrow> py_str lib v)"

section \<open>The stores\<close>

text \<open>
  The two CSV files are kept as the rows that \<^verbatim>\<open>csv.reader\<close> yields from them, the header row
  first; \<^verbatim>\<open>writer.writerow\<close> on a file opened for appending adds one row at the end. How a
  row is laid out as text is the csv module's business. A file that does not exist is
  \<open>None\<close>. The folder of resumes holds flat names (what \<^verbatim>\<open>secure_filename\<close> returns has no
  path separator) with their bytes.
\<close>

record state =
  users_csv :: "string list list option"
  submissions_csv :: "string list list option"
  resumes :: "(string \<times> string) list"

definition USERS_HEADER :: "string list" where
  "USERS_HEADER = [''Email'', ''Password'', ''IsAdmin'']"

definition SUBMISSIONS_HEADER :: "string list" where
  "SUBMISSIONS_HEADER = [''Name'', ''Email'', ''Skills'', ''Filename'', ''AIScore'', ''BestRole'', ''AIFeedback'']"

text \<open>Lines 22 to 32, run when the module is loaded: missing files are created.\<close>

definition startup :: "state \<Rightarrow> state" where
  "startup st =
     st\<lparr> users_csv :=
           (case users_csv st of
              None \<Rightarrow> Some [USERS_HEADER, [''admin@admin.com'', ''admin123'', ''1'']]
            | Some rows \<Rightarrow> Some rows),
         submissions_csv :=
           (case submissions_csv st of
              None \<Rightarrow> Some [SUBMISSIONS_HEADER]
            | Some rows \<Rightarrow> Some rows) \<rparr>"

definition empty_disk :: state where
  "empty_disk = \<lparr> users_csv = None, submissions_csv = None, resumes = [] \<rparr>"

definition append_row :: "string list list option \<Rightarrow> string list \<Rightarrow> string list list option" where
  "append_row file row = Some ((case file of None \<Rightarrow> [] | Some rows \<Rightarrow> rows) @ [row])"

subsection \<open>\<^verbatim>\<open>csv.DictReader\<close>\<close>

text \<open>
  The first row gives the field names. Every later row that is not empty becomes a dict:
  \<^verbatim>\<open>dict(zip(fieldnames, row))\<close>, then the surplus of a longer row under the key \<^verbatim>\<open>None\<close>, or
  \<^verbatim>\<open>None\<close> as the value of every field a shorter row lacks.
\<close>

datatype cell = Text string | NoneCell | Rest "string list"

type_synonym row_dict = "(string option \<times> cell) list"

definition make_row_dict :: "string list \<Rightarrow> string list \<Rightarrow> row_dict" where
  "make_row_dict fieldnames row =
     (let d = foldl (\<lambda>d kv. dict_set d (Some (fst kv)) (Text (snd kv))) [] (zip fieldnames row);
          lf = length fieldnames;
          lr = length row
      in if lf < lr then dict_set d None (Rest (drop lf row))
         else if lr < lf then foldl (\<lambda>d k. dict_set d (Some k) NoneCell) d (drop lr fieldnames)
         else d)"

definition dict_reader :: "string list list \<Rightarrow> row_dict list" where
  "dict_reader rows =
     (case rows of
        [] \<Rightarrow> []
      | fieldnames # rest \<Rightarrow> map (make_row_dict fieldnames) (filter (\<lambda>r. r \<noteq> []) rest))"

text \<open>\<^verbatim>\<open>row.get(key)\<close>: the value, or \<^verbatim>\<open>None\<close> for a missing key.\<close>

definition row_get :: "row_dict \<Rightarrow> string \<Rightarrow> cell" where
  "row_get row k = (case map_of row (Some k) of None \<Rightarrow> NoneCell | Some c \<Rightarrow> c)"

section \<open>Sessions, requests and responses\<close>

record session =
  sess_user :: "string option"
  sess_is_admin :: "bool option"


datatype http_method = GET | POST

text \<open>An uploaded file is its file name and its bytes.\<close>

record request =
  req_method :: http_method
  form :: "(string \<times> string) list"
  files :: "(string \<times> (string \<times> string)) list"

definition form_get :: "request \<Rightarrow> string \<Rightarrow> string" where
  "form_get req k = (case map_of (form req) k of None \<Rightarrow> [] | Some v \<Rightarrow> v)"

datatype response =
    Redirect string
  | Render string "row_dict list"
  | ServerError exn

text \<open>What a route gives back: the response, the flashed messages, the session, the disk.\<close>

record outcome =
  resp :: response
  flashed :: "(string \<times> string) list"
  sess :: session
  disk :: state

definition file_not_found :: exn where
  "file_not_found = Exn ''FileNotFoundError'' ''No such file or directory''"

section \<open>The routes\<close>

subsection \<open>\<^verbatim>\<open>allowed_file\<close>\<close>

definition rfind :: "char \<Rightarrow> string \<Rightarrow> int" where
  "rfind c p = (case find (\<lambda>i. p ! i = c) (rev [0..<length p]) of None \<Rightarrow> - 1 | Some i \<Rightarrow> int i)"

text \<open>
  \<^verbatim>\<open>os.path.splitext\<close>: the extension starts at the last dot after the last separator, unless
  only dots stand between the separator and that dot.
\<close>

definition splitext :: "string \<Rightarrow> string \<times> string" where
  "splitext p =
     (let sepIndex = rfind CHR ''/'' p;
          dotIndex = rfind CHR ''.'' p
      in if sepIndex < dotIndex \<and> list_ex (\<lambda>i. p ! i \<noteq> CHR ''.'') [nat (sepIndex + 1)..<nat dotIndex]
         then (take (nat dotIndex) p, drop (nat dotIndex) p)
         else (p, []))"

definition lower_char :: "char \<Rightarrow> char" where
  "lower_char c =
     (let k = (of_char c :: nat)
      in if (65 \<le> k \<and> k \<le> 90) \<or> (192 \<le> k \<and> k \<le> 222 \<and> k \<noteq> 215) then char_of (k + 32) else c)"

definition lower :: "string \<Rightarrow> string" where
  "lower s = map lower_char s"

definition ALLOWED_EXT :: "string list" where
  "ALLOWED_EXT = [''.pdf'']"

definition allowed_file :: "string \<Rightarrow> bool" where
  "allowed_file filename = (let ext = lower (snd (splitext filename)) in ext \<in> set ALLOWED_EXT)"

subsection \<open>\<^verbatim>\<open>signup\<close>, \<^verbatim>\<open>login\<close>, \<^verbatim>\<open>logout\<close>\<close>

definition respond :: "response \<Rightarrow> (string \<times> string) list \<Rightarrow> session \<Rightarrow> state \<Rightarrow> outcome" where
  "respond r fl s st = \<lparr> resp = r, flashed = fl, sess = s, disk = st \<rparr>"

text \<open>The identifiers of the accounts on file: the \<^verbatim>\<open>Email\<close> value of every row of the reader.\<close>

definition identifiers :: "string list list \<Rightarrow> cell list" where
  "identifiers rows = map (\<lambda>row. row_get row ''Email'') (dict_reader rows)"


definition login :: "request \<Rightarrow> session \<Rightarrow> state \<Rightarrow> outcome" where
  "login req s st =
     (if req_method req = POST then
        (let email = strip (form_get req ''email'');
             password = strip (form_get req ''password'')
         in case users_csv st of
              None \<Rightarrow> respond (ServerError file_not_found) [] s st
            | Some rows \<Rightarrow>
                (case find (\<lambda>row. row_get row ''Email'' = Text email \<and> row_get row ''Password'' = Text password)
                        (dict_reader rows) of
                   Some row \<Rightarrow>
                     (let is_admin = (row_get row ''IsAdmin'' = Text ''1'')
                      in respond (Redirect (if is_admin then ''admin_dashboard'' else ''upload''))
                           [(''Logged in successfully'', ''success'')]
                           (s\<lparr> sess_user := Some email, sess_is_admin := Some is_admin \<rparr>) st)
                 | None \<Rightarrow> respond (Render ''login.html'' []) [(''Invalid credentials'', ''danger'')] s st))
      else respond (Render ''login.html'' []) [] s st)"


subsection \<open>\<^verbatim>\<open>upload\<close>\<close>

text \<open>
  \<^verbatim>\<open>os.path.exists(save_path)\<close> for a name in the folder of resumes; the empty name is the
  folder itself.
\<close>

definition path_exists :: "(string \<times> string) list \<Rightarrow> string \<Rightarrow> bool" where
  "path_exists folder name = (name = [] \<or> name \<in> set (map fst folder))"

definition suffixed :: "string \<Rightarrow> string \<Rightarrow> nat \<Rightarrow> string" where
  "suffixed base ext counter = base @ ''_'' @ str_of_nat counter @ ext"

lemma digit_val_digit_char: "d < 10 \<Longrightarrow> digit_val (digit_char d) = d"
proof -
  assume "d < 10"
  then have "d \<in> {0, 1, 2, 3, 4, 5, 6, 7, 8, 9}"
    by auto
  then show ?thesis
    by (auto simp add: digit_val_def digit_char_def)
qed

lemma nat_of_digits_snoc: "nat_of_digits (ds @ [c]) = 10 * nat_of_digits ds + digit_val c"
  by (simp add: nat_of_digits_def)

lemma nat_of_digits_str_of_nat: "nat_of_digits (str_of_nat n) = n"
proof (induction n rule: str_of_nat.induct)
  case (1 n)
  show ?case
  proof (cases "n < 10")
    case True
    then show ?thesis
      by (simp add: str_of_nat.simps [of n] nat_of_digits_def digit_val_digit_char)
  next
    case False
    with 1 have "nat_of_digits (str_of_nat (n div 10)) = n div 10"
      by simp
    with False show ?thesis
      by (simp add: str_of_nat.simps [of n] nat_of_digits_snoc digit_val_digit_char)
  qed
qed

lemma str_of_nat_inj: "str_of_nat m = str_of_nat n \<Longrightarrow> m = n"
  by (metis nat_of_digits_str_of_nat)

lemma suffixed_inj: "suffixed base ext m = suffixed base ext n \<Longrightarrow> m = n"
  by (simp add: suffixed_def str_of_nat_inj)

lemma finite_taken: "finite {k. path_exists folder (suffixed base ext k)}"
proof -
  have "{k. path_exists folder (suffixed base ext k)} \<subseteq> suffixed base ext -` set (map fst folder)"
    by (force simp add: path_exists_def suffixed_def)
  moreover have "finite (suffixed base ext -` set (map fst folder))"
    by (rule finite_vimageI) (auto simp add: inj_on_def dest: suffixed_inj)
  ultimately show ?thesis
    by (rule finite_subset)
qed

text \<open>
  Lines 160 to 164: the loop state is the candidate name and the counter. It stops because
  the folder holds finitely many names and the candidates are pairwise different.
\<close>

function unique_name :: "(string \<times> string) list \<Rightarrow> string \<Rightarrow> string \<Rightarrow> string \<Rightarrow> nat \<Rightarrow> string" where
  "unique_name folder base ext filename counter =
     (if path_exists folder filename
      then unique_name folder base ext (suffixed base ext counter) (counter + 1)
      else filename)"
  by pat_completeness auto
termination
proof (relation "measure (\<lambda>(folder, base, ext, filename, counter).
         if path_exists folder filename
         then Suc (card {k. counter \<le> k \<and> path_exists folder (suffixed base ext k)})
         else 0)")
  show "wf (measure (\<lambda>(folder, base, ext, filename, counter).
         if path_exists folder filename
         then Suc (card {k. counter \<le> k \<and> path_exists folder (suffixed base ext k)})
         else 0))"
    by simp
next
  fix folder :: "(string \<times> string) list" and base ext filename :: string and counter :: nat
  assume ex: "path_exists folder filename"
  let ?S = "\<lambda>c. {k. c \<le> k \<and> path_exists folder (suffixed base ext k)}"
  have fin: "finite (?S counter)"
    by (rule finite_subset [OF _ finite_taken [of folder base ext]]) auto
  have "path_exists folder (suffixed base ext counter) \<Longrightarrow> card (?S (counter + 1)) < card (?S counter)"
  proof -
    assume "path_exists folder (suffixed base ext counter)"
    then have "counter \<in> ?S counter" and "counter \<notin> ?S (counter + 1)"
      by simp_all
    moreover have "?S (counter + 1) \<subseteq> ?S counter"
      by auto
    ultimately have "?S (counter + 1) \<subset> ?S counter"
      by blast
    with fin show ?thesis
      by (rule psubset_card_mono)
  qed
  with ex show "((folder, base, ext, suffixed base ext counter, counter + 1), (folder, base, ext, filename, counter))
      \<in> measure (\<lambda>(folder, base, ext, filename, counter).
         if path_exists folder filename
         then Suc (card {k. counter \<le> k \<and> path_exists folder (suffixed base ext k)})
         else 0)"
    by auto
qed

declare unique_name.simps [simp del]

text \<open>Lines 156 to 164: the name under which the upload is stored.\<close>

definition storage_name :: "library \<Rightarrow> (string \<times> string) list \<Rightarrow> string \<Rightarrow> string" where
  "storage_name lib folder raw =
     (let filename = secure_filename lib raw;
          (base, ext) = splitext filename
      in unique_name folder base ext filename 1)"

text \<open>Truth value of the uploaded file object: it has a non-empty file name.\<close>

definition resume_given :: "(string \<times> string) option \<Rightarrow> bool" where
  "resume_given resume = (case resume of None \<Rightarrow> False | Some (fname, bytes) \<Rightarrow> fname \<noteq> [])"

definition upload :: "library \<Rightarrow> request \<Rightarrow> session \<Rightarrow> state \<Rightarrow> outcome" where
  "upload lib req s st =
     (if sess_user s = None then
        respond (Redirect ''login'') [(''Please login to upload resume'', ''warning'')] s st
      else if req_method req = POST then
        (let name = strip (form_get req ''name'');
             email = strip (form_get req ''email'');
             skills = strip (form_get req ''skills'');
             resume = map_of (files req) ''resume''
         in if name = [] \<or> email = [] \<or> skills = [] \<or> \<not> resume_given resume then
              respond (Redirect ''upload'') [(''All fields required'', ''danger'')] s st
            else if \<not> allowed_file (fst (the resume)) then
              respond (Redirect ''upload'') [(''Only PDF resumes are allowed'', ''danger'')] s st
            else
              (let filename = storage_name lib (resumes st) (fst (the resume));
                   st1 = st\<lparr> resumes := dict_set (resumes st) filename (snd (the resume)) \<rparr>
               in case analyze_resume_with_ai lib skills of
                    Inl e \<Rightarrow> respond (ServerError e) [] s st1
                  | Inr (score, best_role, raw_feedback) \<Rightarrow>
                      respond (Redirect ''upload'')
                        [(''Resume uploaded! AI Score: '' @ str_of_int score @ '', Suggested Role: ''
                          @ py_str lib best_role, ''success'')]
                        s
                        (st1\<lparr> submissions_csv :=
                                append_row (submissions_csv st1)
                                  [name, email, skills, filename, str_of_int score, csv_cell lib best_role,
                                   raw_feedback] \<rparr>)))
      else respond (Render ''upload.html'' []) [] s st)"

subsection \<open>\<^verbatim>\<open>admin_dashboard\<close>\<close>

text \<open>Lines 186 to 191: the rows of the ledger, in the order of the file.\<close>

definition load_all :: "state \<Rightarrow> row_dict list" where
  "load_all st = (case submissions_csv st of None \<Rightarrow> [] | Some rows \<Rightarrow> dict_reader rows)"

definition cell_value :: "cell \<Rightarrow> json" where
  "cell_value c = (case c of Text t \<Rightarrow> JStr t | NoneCell \<Rightarrow> JNull | Rest xs \<Rightarrow> JArr (map JStr xs))"

text \<open>The sort key \<^verbatim>\<open>int(r.get("AIScore", 0))\<close>.\<close>

definition score_key :: "row_dict \<Rightarrow> exn + int" where
  "score_key r = py_int (case map_of r (Some ''AIScore'') of None \<Rightarrow> JInt 0 | Some c \<Rightarrow> cell_value c)"

text \<open>
  \<^verbatim>\<open>rows.sort(key=..., reverse=True)\<close>: the keys are computed first, row by row, and the first
  exception leaves the sort; then the rows are put in descending order of their keys, rows
  with equal keys keeping their order.
\<close>

fun sort_keys :: "row_dict list \<Rightarrow> exn + (int \<times> row_dict) list" where
  "sort_keys [] = Inr []"
| "sort_keys (r # rs) =
     bind_exn (score_key r) (\<lambda>k. bind_exn (sort_keys rs) (\<lambda>krs. Inr ((k, r) # krs)))"

definition sort_by_score :: "row_dict list \<Rightarrow> exn + row_dict list" where
  "sort_by_score rows =
     bind_exn (sort_keys rows) (\<lambda>krs. Inr (map snd (sort_key (\<lambda>kr. - fst kr) krs)))"

definition rank :: "state \<Rightarrow> exn + row_dict list" where
  "rank st = sort_by_score (load_all st)"


subsection \<open>The states the application reaches\<close>


section \<open>Properties of the scoring adapter\<close>

subsection \<open>The decoder on the responses of the examples\<close>

lemma decode_looks_solid: "json_decode ''Looks solid.'' = JSONDecodeError"
  by code_simp

lemma decode_42: "json_decode ''42'' = Decoded (JInt 42)"
  by code_simp

lemma decode_empty: "json_decode [] = JSONDecodeError"
  by code_simp

lemma decode_backend: \<open>json_decode ''{"score": 82, "best_role": "Backend Engineer"}''
   = Decoded (JObj [(''score'', JInt 82), (''best_role'', JStr ''Backend Engineer'')])\<close>
  by code_simp

lemma decode_null_score: \<open>json_decode ''{"score": null, "best_role": "Data Analyst"}''
   = Decoded (JObj [(''score'', JNull), (''best_role'', JStr ''Data Analyst'')])\<close>
  by code_simp

subsection \<open>Responses that are not JSON\<close>

text \<open>
  C1, as the code has it. When the model answers and the decoder raises
  \<^verbatim>\<open>json.JSONDecodeError\<close> on the answer (the text is not JSON at all), the adapter returns
  score 50, role \<^verbatim>\<open>"Unknown"\<close> and the answer itself, unchanged, as the raw response; the raw
  response is therefore empty exactly when the answer is.
\<close>

theorem parse_failure_defaults:
  assumes "generate_content lib (prompt skills_text) = Inr content"
    and "json_loads lib content = JSONDecodeError"
  shows "analyze_resume_with_ai lib skills_text = Inr (50, JStr ''Unknown'', content)"
  using assms
  by (simp add: analyze_resume_with_ai_def analyze_body_def parse_content_def bind_exn_def)

text \<open>The scenario of the specification: the model answers \<^verbatim>\<open>Looks solid.\<close>\<close>

theorem parse_failure_defaults_witness:
  "json_loads (answering (Inr ''Looks solid.'')) ''Looks solid.'' = JSONDecodeError
   \<and> analyze_resume_with_ai (answering (Inr ''Looks solid.'')) ''x''
       = Inr (50, JStr ''Unknown'', ''Looks solid.'')"
proof -
  have g: "generate_content (answering (Inr ''Looks solid.'')) (prompt ''x'') = Inr ''Looks solid.''"
    by (simp add: answering_def)
  have d: "json_loads (answering (Inr ''Looks solid.'')) ''Looks solid.'' = JSONDecodeError"
    by (simp add: answering_def decode_looks_solid)
  from parse_failure_defaults [OF g d] d show ?thesis
    by simp
qed

text \<open>
  C1 as the specification words it fails twice. The answer \<^verbatim>\<open>42\<close> is JSON but no object: the
  decoder returns the integer, \<^verbatim>\<open>parsed.get\<close> raises \<^verbatim>\<open>AttributeError\<close>, which the inner handler
  does not catch, and the outer handler returns score 0 and role \<^verbatim>\<open>"AI Processing Failed"\<close>.
  The empty answer is not JSON: the result is score 50 and role \<^verbatim>\<open>"Unknown"\<close> with an empty
  raw response.
\<close>

theorem non_object_response_counterexample:
  "json_loads (answering (Inr ''42'')) ''42'' = Decoded (JInt 42)
   \<and> analyze_resume_with_ai (answering (Inr ''42'')) ''x''
       = Inr (0, JStr ''AI Processing Failed'',
              ''AI Error: '' @ quoted ''int'' @ '' object has no attribute '' @ quoted ''get'')
   \<and> analyze_resume_with_ai (answering (Inr [])) ''x'' = Inr (50, JStr ''Unknown'', [])"
  by (simp add: answering_def decode_42 decode_empty analyze_resume_with_ai_def analyze_body_def
      parse_content_def bind_exn_def py_get_def)

subsection \<open>No exception reaches the caller\<close>

text \<open>
  C4. The adapter returns a triple on every path, whatever the libraries do; and when the
  model cannot be invoked (lines 56 to 64 raise \<open>e\<close>), the triple is score 0, role
  \<^verbatim>\<open>"AI Processing Failed"\<close> and the text \<^verbatim>\<open>AI Error: \<close> followed by \<^verbatim>\<open>str(e)\<close>.
\<close>

theorem adapter_never_raises:
  "(\<exists>r. analyze_resume_with_ai lib skills_text = Inr r)
   \<and> (\<forall>e. generate_content lib (prompt skills_text) = Inl e \<longrightarrow>
          analyze_resume_with_ai lib skills_text
            = Inr (0, JStr ''AI Processing Failed'', ''AI Error: '' @ exn_str e))"
proof
  show "\<exists>r. analyze_resume_with_ai lib skills_text = Inr r"
    by (cases "analyze_body lib skills_text") (auto simp add: analyze_resume_with_ai_def)
next
  show "\<forall>e. generate_content lib (prompt skills_text) = Inl e \<longrightarrow>
          analyze_resume_with_ai lib skills_text
            = Inr (0, JStr ''AI Processing Failed'', ''AI Error: '' @ exn_str e)"
    by (simp add: analyze_resume_with_ai_def analyze_body_def bind_exn_def)
qed

theorem adapter_never_raises_witness:
  "generate_content (answering (Inl (Exn ''DeadlineExceeded'' ''504 Deadline Exceeded''))) (prompt ''Python, SQL'')
     = Inl (Exn ''DeadlineExceeded'' ''504 Deadline Exceeded'')
   \<and> analyze_resume_with_ai (answering (Inl (Exn ''DeadlineExceeded'' ''504 Deadline Exceeded''))) ''Python, SQL''
     = Inr (0, JStr ''AI Processing Failed'', ''AI Error: 504 Deadline Exceeded'')"
proof -
  have g: "generate_content (answering (Inl (Exn ''DeadlineExceeded'' ''504 Deadline Exceeded''))) (prompt ''Python, SQL'')
     = Inl (Exn ''DeadlineExceeded'' ''504 Deadline Exceeded'')"
    by (simp add: answering_def)
  with adapter_never_raises [of "answering (Inl (Exn ''DeadlineExceeded'' ''504 Deadline Exceeded''))" "''Python, SQL''"]
  show ?thesis
    by simp
qed

subsection \<open>Responses that are a JSON object\<close>

text \<open>
  C8, as the code has it. When the answer decodes to an object and \<^verbatim>\<open>int\<close> converts the value
  under \<^verbatim>\<open>"score"\<close> (50 when the key is absent) to \<open>n\<close>, the adapter returns \<open>n\<close>, the value under
  \<^verbatim>\<open>"best_role"\<close> (\<^verbatim>\<open>"Generalist"\<close> when the key is absent) and the answer as the raw response.
\<close>

theorem parsed_object_result:
  assumes "generate_content lib (prompt skills_text) = Inr content"
    and "json_loads lib content = Decoded (JObj d)"
    and "py_int (case map_of d ''score'' of None \<Rightarrow> JInt 50 | Some v \<Rightarrow> v) = Inr n"
  shows "analyze_resume_with_ai lib skills_text
           = Inr (n, (case map_of d ''best_role'' of None \<Rightarrow> JStr ''Generalist'' | Some v \<Rightarrow> v), content)
         \<and> (map_of d ''score'' = None \<longrightarrow> n = 50)"
proof
  from assms show "analyze_resume_with_ai lib skills_text
           = Inr (n, (case map_of d ''best_role'' of None \<Rightarrow> JStr ''Generalist'' | Some v \<Rightarrow> v), content)"
    by (simp add: analyze_resume_with_ai_def analyze_body_def parse_content_def bind_exn_def
        py_get_def dict_get_def)
next
  from assms(3) show "map_of d ''score'' = None \<longrightarrow> n = 50"
    by auto
qed

text \<open>The scenario of the specification: score 82, role \<^verbatim>\<open>Backend Engineer\<close>.\<close>

theorem parsed_object_result_witness:
  \<open>json_loads (answering (Inr ''{"score": 82, "best_role": "Backend Engineer"}''))
       ''{"score": 82, "best_role": "Backend Engineer"}''
     = Decoded (JObj [(''score'', JInt 82), (''best_role'', JStr ''Backend Engineer'')])
   \<and> analyze_resume_with_ai (answering (Inr ''{"score": 82, "best_role": "Backend Engineer"}'')) ''Python, SQL''
     = Inr (82, JStr ''Backend Engineer'', ''{"score": 82, "best_role": "Backend Engineer"}'')\<close>
proof -
  let ?lib = \<open>answering (Inr ''{"score": 82, "best_role": "Backend Engineer"}'')\<close>
  have g: \<open>generate_content ?lib (prompt ''Python, SQL'') = Inr ''{"score": 82, "best_role": "Backend Engineer"}''\<close>
    by (simp add: answering_def)
  have d: \<open>json_loads ?lib ''{"score": 82, "best_role": "Backend Engineer"}''
     = Decoded (JObj [(''score'', JInt 82), (''best_role'', JStr ''Backend Engineer'')])\<close>
    by (simp add: answering_def decode_backend)
  have i: "py_int (case map_of [(''score'', JInt 82), (''best_role'', JStr ''Backend Engineer'')] ''score'' of
                     None \<Rightarrow> JInt 50 | Some v \<Rightarrow> v) = Inr 82"
    by simp
  from parsed_object_result [OF g d i] d show ?thesis
    by simp
qed

text \<open>
  C8 as the specification words it fails when \<^verbatim>\<open>int\<close> cannot convert the score: the answer
  decodes to an object whose \<^verbatim>\<open>"best_role"\<close> is \<^verbatim>\<open>"Data Analyst"\<close>, \<^verbatim>\<open>int(None)\<close> raises \<^verbatim>\<open>TypeError\<close>,
  and the adapter returns score 0 and role \<^verbatim>\<open>"AI Processing Failed"\<close>.
\<close>

theorem unconvertible_score_counterexample:
  \<open>json_loads (answering (Inr ''{"score": null, "best_role": "Data Analyst"}''))
       ''{"score": null, "best_role": "Data Analyst"}''
     = Decoded (JObj [(''score'', JNull), (''best_role'', JStr ''Data Analyst'')])
   \<and> analyze_resume_with_ai (answering (Inr ''{"score": null, "best_role": "Data Analyst"}'')) ''Python, SQL''
     = Inr (0, JStr ''AI Processing Failed'',
            ''AI Error: int() argument must be a string, a bytes-like object or a real number, not ''
            @ quoted ''NoneType'')\<close>
  by (simp add: answering_def decode_null_score analyze_resume_with_ai_def analyze_body_def
      parse_content_def bind_exn_def py_get_def dict_get_def)

section \<open>Integers written and read back\<close>








section \<open>What the routes do to the disk\<close>





lemma analyze_returns: "\<exists>score best_role raw. analyze_resume_with_ai lib skills_text = Inr (score, best_role, raw)"
  by (cases "analyze_body lib skills_text") (auto simp add: analyze_resume_with_ai_def)

text \<open>
  An upload request passes the gates of lines 138 to 154: a user in the session, a POST, the
  three fields and the file present, an allowed file name.
\<close>

definition accepted :: "request \<Rightarrow> session \<Rightarrow> bool" where
  "accepted req s =
     (sess_user s \<noteq> None \<and> req_method req = POST
      \<and> strip (form_get req ''name'') \<noteq> [] \<and> strip (form_get req ''email'') \<noteq> []
      \<and> strip (form_get req ''skills'') \<noteq> [] \<and> resume_given (map_of (files req) ''resume'')
      \<and> allowed_file (fst (the (map_of (files req) ''resume''))))"

lemma upload_not_accepted: "\<not> accepted req s \<Longrightarrow> disk (upload lib req s st) = st"
  by (auto simp add: accepted_def upload_def respond_def Let_def)

lemma upload_accepted:
  assumes "accepted req s"
    and "analyze_resume_with_ai lib (strip (form_get req ''skills'')) = Inr (score, best_role, raw)"
  shows "disk (upload lib req s st)
         = st\<lparr> resumes := dict_set (resumes st)
                  (storage_name lib (resumes st) (fst (the (map_of (files req) ''resume''))))
                  (snd (the (map_of (files req) ''resume''))),
               submissions_csv := append_row (submissions_csv st)
                  [strip (form_get req ''name''), strip (form_get req ''email''),
                   strip (form_get req ''skills''),
                   storage_name lib (resumes st) (fst (the (map_of (files req) ''resume''))),
                   str_of_int score, csv_cell lib best_role, raw] \<rparr>"
  using assms by (auto simp add: accepted_def upload_def respond_def Let_def)


subsection \<open>The ledger the application writes\<close>





section \<open>Properties of the ranking view\<close>

text \<open>The score under which a row is ranked, when its key can be computed.\<close>

definition score_of :: "row_dict \<Rightarrow> int" where
  "score_of r = (case score_key r of Inr k \<Rightarrow> k | Inl e \<Rightarrow> 0)"

lemma insort_key_map: "insort_key f (g x) (map g ys) = map g (insort_key (\<lambda>y. f (g y)) x ys)"
  by (induction ys) simp_all

lemma sort_key_map: "sort_key f (map g xs) = map g (sort_key (\<lambda>y. f (g y)) xs)"
  by (induction xs) (simp_all add: insort_key_map)

lemma sort_keys_computable:
  "\<forall>r \<in> set rows. \<exists>k. score_key r = Inr k \<Longrightarrow> sort_keys rows = Inr (map (\<lambda>r. (score_of r, r)) rows)"
proof (induction rows)
  case Nil
  show ?case by simp
next
  case (Cons r rows)
  then obtain k where k: "score_key r = Inr k"
    by auto
  from Cons have "sort_keys rows = Inr (map (\<lambda>r. (score_of r, r)) rows)"
    by simp
  with k show ?case
    by (simp add: bind_exn_def score_of_def)
qed

lemma sort_keys_first_failure:
  "score_key r = Inl e \<Longrightarrow> \<forall>r' \<in> set before. \<exists>k. score_key r' = Inr k \<Longrightarrow> sort_keys (before @ r # after) = Inl e"
  by (induction before) (auto simp add: bind_exn_def)

lemma sort_by_score_computable:
  assumes "\<forall>r \<in> set rows. \<exists>k. score_key r = Inr k"
  shows "sort_by_score rows = Inr (sort_key (\<lambda>r. - score_of r) rows)"
proof -
  have "map snd (sort_key (\<lambda>kr. - fst kr) (map (\<lambda>r. (score_of r, r)) rows))
        = sort_key (\<lambda>r. - score_of r) rows"
    by (simp add: sort_key_map comp_def)
  with sort_keys_computable [OF assms] show ?thesis
    by (simp add: sort_by_score_def bind_exn_def)
qed



subsection \<open>Examples\<close>

text \<open>
  Four accepted uploads on a fresh installation; the model scores them 10, 90, 90 and 5.
\<close>

definition applicant :: session where
  "applicant = \<lparr> sess_user = Some ''a@a.com'', sess_is_admin = Some False \<rparr>"

definition submission :: "string \<Rightarrow> string \<Rightarrow> request" where
  "submission name fname =
     \<lparr> req_method = POST,
       form = [(''name'', name), (''email'', ''a@a.com''), (''skills'', ''Python, SQL'')],
       files = [(''resume'', (fname, ''%PDF-1.4''))] \<rparr>"

definition scoring :: "string \<Rightarrow> library" where
  \<open>scoring n = answering (Inr (''{"score": '' @ n @ ''}''))\<close>






text \<open>A ledger edited outside the application: the header and one row.\<close>

definition edited_ledger :: "string list \<Rightarrow> state" where
  "edited_ledger row = (startup empty_disk)\<lparr> submissions_csv := Some [SUBMISSIONS_HEADER, row] \<rparr>"

text \<open>A ledger without the column \<^verbatim>\<open>AIScore\<close>.\<close>

definition old_ledger :: state where
  "old_ledger = (startup empty_disk)\<lparr> submissions_csv := Some [[''Name'', ''Email''], [''Al'', ''a@a.com''], [''Bea'', ''b@b.com'']] \<rparr>"

lemma old_ledger_loaded:
  "load_all old_ledger = [[(Some ''Name'', Text ''Al''), (Some ''Email'', Text ''a@a.com'')],
                          [(Some ''Name'', Text ''Bea''), (Some ''Email'', Text ''b@b.com'')]]"
  by code_simp

subsection \<open>Stable descending order\<close>



subsection \<open>Rows without a usable score\<close>

text \<open>
  C2, as the code has it. A row that has no key \<^verbatim>\<open>AIScore\<close> is ranked with score 0, and the
  sort returns whenever every \<^verbatim>\<open>AIScore\<close> value that is present is text that \<^verbatim>\<open>int\<close> converts.
\<close>

lemma absent_key_zero: "map_of r (Some ''AIScore'') = None \<Longrightarrow> score_key r = Inr 0"
  by (simp add: score_key_def)

theorem absent_score_ranks_as_zero:
  assumes "\<forall>r \<in> set (load_all st).
             map_of r (Some ''AIScore'') = None
             \<or> (\<exists>t k. map_of r (Some ''AIScore'') = Some (Text t) \<and> int_of_str t = Some k)"
  shows "rank st = Inr (sort_key (\<lambda>r. - score_of r) (load_all st))
         \<and> (\<forall>r \<in> set (load_all st). map_of r (Some ''AIScore'') = None \<longrightarrow> score_key r = Inr 0)"
proof -
  have "\<forall>r \<in> set (load_all st). \<exists>k. score_key r = Inr k"
  proof
    fix r
    assume "r \<in> set (load_all st)"
    with assms have "map_of r (Some ''AIScore'') = None
             \<or> (\<exists>t k. map_of r (Some ''AIScore'') = Some (Text t) \<and> int_of_str t = Some k)"
      by blast
    then show "\<exists>k. score_key r = Inr k"
      by (auto simp add: score_key_def cell_value_def)
  qed
  then have "rank st = Inr (sort_key (\<lambda>r. - score_of r) (load_all st))"
    by (simp add: rank_def sort_by_score_computable)
  then show ?thesis
    by (simp add: absent_key_zero)
qed

theorem absent_score_ranks_as_zero_witness:
  "load_all old_ledger = [[(Some ''Name'', Text ''Al''), (Some ''Email'', Text ''a@a.com'')],
                          [(Some ''Name'', Text ''Bea''), (Some ''Email'', Text ''b@b.com'')]]
   \<and> rank old_ledger = Inr [[(Some ''Name'', Text ''Al''), (Some ''Email'', Text ''a@a.com'')],
                             [(Some ''Name'', Text ''Bea''), (Some ''Email'', Text ''b@b.com'')]]
   \<and> score_key [(Some ''Name'', Text ''Al''), (Some ''Email'', Text ''a@a.com'')] = Inr 0"
proof -
  have h: "\<forall>r \<in> set (load_all old_ledger).
             map_of r (Some ''AIScore'') = None
             \<or> (\<exists>t k. map_of r (Some ''AIScore'') = Some (Text t) \<and> int_of_str t = Some k)"
    by (simp add: old_ledger_loaded)
  have "sort_key (\<lambda>r. - score_of r) (load_all old_ledger) = load_all old_ledger"
    by (simp add: old_ledger_loaded score_of_def score_key_def)
  with absent_score_ranks_as_zero [OF h] show ?thesis
    by (simp add: old_ledger_loaded)
qed

text \<open>
  C2 as the specification words it fails: with the score cell \<^verbatim>\<open>high\<close> the key function raises
  \<^verbatim>\<open>ValueError\<close>, and with a row that stops before the score cell the reader puts \<^verbatim>\<open>None\<close> and
  \<^verbatim>\<open>int\<close> raises \<^verbatim>\<open>TypeError\<close>; in both cases the sort ends with the exception.
\<close>

theorem non_numeric_score_counterexample:
  "rank (edited_ledger [''Al'', ''a@a.com'', ''Python'', ''resume.pdf'', ''high'', ''Engineer'', ''ok''])
     = Inl (Exn ''ValueError'' (''invalid literal for int() with base 10: '' @ quoted ''high''))
   \<and> rank (edited_ledger [''Al'', ''a@a.com'', ''Python'', ''resume.pdf''])
     = Inl (Exn ''TypeError''
         (''int() argument must be a string, a bytes-like object or a real number, not '' @ quoted ''NoneType''))"
  by code_simp

section \<open>Properties of the ledger\<close>



section \<open>Properties of file intake\<close>

subsection \<open>The loop that resolves a name collision\<close>

lemma unique_name_free: "\<not> path_exists folder (unique_name folder base ext filename counter)"
proof (induction folder base ext filename counter rule: unique_name.induct)
  case (1 folder base ext filename counter)
  then show ?case
    by (cases "path_exists folder filename") (simp_all add: unique_name.simps [of folder base ext filename])
qed

lemma unique_name_least:
  "path_exists folder filename \<Longrightarrow>
   \<exists>k. counter \<le> k \<and> unique_name folder base ext filename counter = suffixed base ext k
       \<and> (\<forall>j. counter \<le> j \<and> j < k \<longrightarrow> path_exists folder (suffixed base ext j))"
proof (induction folder base ext filename counter rule: unique_name.induct)
  case (1 folder base ext filename counter)
  show ?case
  proof (cases "path_exists folder (suffixed base ext counter)")
    case False
    with "1.prems" have "unique_name folder base ext filename counter = suffixed base ext counter"
      by (simp add: unique_name.simps [of folder base ext filename]
          unique_name.simps [of folder base ext "suffixed base ext counter"])
    then show ?thesis
      by (intro exI [of _ counter]) auto
  next
    case True
    with "1.IH" [OF "1.prems"] obtain k where k: "counter + 1 \<le> k"
      and eq: "unique_name folder base ext (suffixed base ext counter) (counter + 1) = suffixed base ext k"
      and taken: "\<forall>j. counter + 1 \<le> j \<and> j < k \<longrightarrow> path_exists folder (suffixed base ext j)"
      by blast
    from "1.prems" eq have "unique_name folder base ext filename counter = suffixed base ext k"
      by (simp add: unique_name.simps [of folder base ext filename])
    moreover have "\<forall>j. counter \<le> j \<and> j < k \<longrightarrow> path_exists folder (suffixed base ext j)"
    proof (intro allI impI)
      fix j
      assume "counter \<le> j \<and> j < k"
      then have "j = counter \<or> (counter + 1 \<le> j \<and> j < k)"
        by auto
      with True taken show "path_exists folder (suffixed base ext j)"
        by blast
    qed
    ultimately show ?thesis
      using k by (intro exI [of _ k]) simp
  qed
qed

lemma dict_set_fresh: "k \<notin> set (map fst d) \<Longrightarrow> dict_set d k v = d @ [(k, v)]"
  by (induction d) auto

subsection \<open>Examples\<close>

text \<open>A fresh installation after one accepted upload of \<^verbatim>\<open>resume.pdf\<close>.\<close>

definition after_first_upload :: state where
  "after_first_upload = disk (upload (scoring ''70'') (submission ''Al'' ''resume.pdf'') applicant (startup empty_disk))"

lemma first_upload_stored: "resumes after_first_upload = [(''resume.pdf'', ''%PDF-1.4'')]"
  by code_simp

lemma second_upload_stored:
  "resumes (disk (upload (scoring ''70'') (submission ''Al'' ''resume.pdf'') applicant after_first_upload))
   = [(''resume.pdf'', ''%PDF-1.4''), (''resume_1.pdf'', ''%PDF-1.4'')]"
  by code_simp

lemma submission_accepted: "accepted (submission ''Al'' ''resume.pdf'') applicant"
  by code_simp

lemma splitext_resume: "splitext ''resume.pdf'' = (''resume'', ''.pdf'')"
  by code_simp

lemma docx_extension: "lower (snd (splitext ''resume.PDF.docx'')) = ''.docx''"
  by code_simp

lemma docx_fields:
  "sess_user applicant \<noteq> None \<and> req_method (submission ''Al'' ''resume.PDF.docx'') = POST
   \<and> strip (form_get (submission ''Al'' ''resume.PDF.docx'') ''name'') \<noteq> []
   \<and> strip (form_get (submission ''Al'' ''resume.PDF.docx'') ''email'') \<noteq> []
   \<and> strip (form_get (submission ''Al'' ''resume.PDF.docx'') ''skills'') \<noteq> []"
  by code_simp

subsection \<open>A stored name is new\<close>

text \<open>
  C5. For an accepted upload, the name under which the file is stored is not a name of the
  folder at the time of the call, and the file is added to the folder under it. The name is
  the sanitised name when that is free; otherwise it is \<^verbatim>\<open>base_k.ext\<close> for the first \<open>k\<close> from 1 on
  that is free, every smaller suffix being taken.
\<close>

theorem storage_name_fresh:
  assumes "accepted req s"
    and "map_of (files req) ''resume'' = Some (raw, bytes)"
    and "secure_filename lib raw = filename"
    and "splitext filename = (base, ext)"
  shows "storage_name lib (resumes st) raw \<notin> set (map fst (resumes st))
         \<and> resumes (disk (upload lib req s st)) = resumes st @ [(storage_name lib (resumes st) raw, bytes)]
         \<and> (\<not> path_exists (resumes st) filename \<longrightarrow> storage_name lib (resumes st) raw = filename)
         \<and> (path_exists (resumes st) filename \<longrightarrow>
              (\<exists>k. 1 \<le> k \<and> storage_name lib (resumes st) raw = base @ ''_'' @ str_of_nat k @ ext
                 \<and> (\<forall>j. 1 \<le> j \<and> j < k \<longrightarrow>
                       base @ ''_'' @ str_of_nat j @ ext \<in> set (map fst (resumes st)))))"
proof -
  have name: "storage_name lib (resumes st) raw = unique_name (resumes st) base ext filename 1"
    using assms(3,4) by (simp add: storage_name_def)
  have free: "\<not> path_exists (resumes st) (storage_name lib (resumes st) raw)"
    unfolding name by (rule unique_name_free)
  then have fresh: "storage_name lib (resumes st) raw \<notin> set (map fst (resumes st))"
    by (simp add: path_exists_def)
  obtain score best_role rawtext where
    "analyze_resume_with_ai lib (strip (form_get req ''skills'')) = Inr (score, best_role, rawtext)"
    using analyze_returns by blast
  from upload_accepted [OF assms(1) this, of st] assms(2)
  have "resumes (disk (upload lib req s st))
        = dict_set (resumes st) (storage_name lib (resumes st) raw) bytes"
    by simp
  with fresh have stored: "resumes (disk (upload lib req s st))
        = resumes st @ [(storage_name lib (resumes st) raw, bytes)]"
    by (simp add: dict_set_fresh)
  have first: "\<not> path_exists (resumes st) filename \<longrightarrow> storage_name lib (resumes st) raw = filename"
    unfolding name by (simp add: unique_name.simps [of "resumes st" base ext filename])
  have loop: "path_exists (resumes st) filename \<longrightarrow>
              (\<exists>k. 1 \<le> k \<and> storage_name lib (resumes st) raw = base @ ''_'' @ str_of_nat k @ ext
                 \<and> (\<forall>j. 1 \<le> j \<and> j < k \<longrightarrow>
                       base @ ''_'' @ str_of_nat j @ ext \<in> set (map fst (resumes st))))"
  proof
    assume "path_exists (resumes st) filename"
    from unique_name_least [OF this, of 1 base ext] obtain k where "1 \<le> k"
      and "unique_name (resumes st) base ext filename 1 = suffixed base ext k"
      and "\<forall>j. 1 \<le> j \<and> j < k \<longrightarrow> path_exists (resumes st) (suffixed base ext j)"
      by blast
    then show "\<exists>k. 1 \<le> k \<and> storage_name lib (resumes st) raw = base @ ''_'' @ str_of_nat k @ ext
                 \<and> (\<forall>j. 1 \<le> j \<and> j < k \<longrightarrow>
                       base @ ''_'' @ str_of_nat j @ ext \<in> set (map fst (resumes st)))"
      unfolding name by (intro exI [of _ k]) (auto simp add: path_exists_def suffixed_def)
  qed
  from fresh stored first loop show ?thesis
    by blast
qed

text \<open>The scenario of the specification: \<^verbatim>\<open>resume.pdf\<close> uploaded twice.\<close>

theorem storage_name_fresh_witness:
  "accepted (submission ''Al'' ''resume.pdf'') applicant
   \<and> resumes after_first_upload = [(''resume.pdf'', ''%PDF-1.4'')]
   \<and> storage_name (scoring ''70'') (resumes after_first_upload) ''resume.pdf'' = ''resume_1.pdf''
   \<and> resumes (disk (upload (scoring ''70'') (submission ''Al'' ''resume.pdf'') applicant after_first_upload))
       = [(''resume.pdf'', ''%PDF-1.4''), (''resume_1.pdf'', ''%PDF-1.4'')]"
proof -
  have f: "map_of (files (submission ''Al'' ''resume.pdf'')) ''resume'' = Some (''resume.pdf'', ''%PDF-1.4'')"
    by (simp add: submission_def)
  have n: "secure_filename (scoring ''70'') ''resume.pdf'' = ''resume.pdf''"
    by (simp add: scoring_def answering_def)
  from storage_name_fresh [OF submission_accepted f n splitext_resume, of after_first_upload]
  have "resumes (disk (upload (scoring ''70'') (submission ''Al'' ''resume.pdf'') applicant after_first_upload))
        = resumes after_first_upload @ [(storage_name (scoring ''70'') (resumes after_first_upload) ''resume.pdf'', ''%PDF-1.4'')]"
    by blast
  with second_upload_stored first_upload_stored
  have "storage_name (scoring ''70'') (resumes after_first_upload) ''resume.pdf'' = ''resume_1.pdf''"
    by simp
  with submission_accepted first_upload_stored second_upload_stored show ?thesis
    by simp
qed

subsection \<open>Only PDF names are taken in\<close>

text \<open>
  C6. When the extension of the uploaded name, in lower case, is not \<^verbatim>\<open>.pdf\<close>, the request
  leaves the disk as it was: no file is stored and no row is appended to the ledger. A
  request that passes the earlier gates (a user in the session, a POST, all fields present)
  is answered with the rejection \<^verbatim>\<open>Only PDF resumes are allowed\<close>.
\<close>

theorem non_pdf_rejected:
  assumes "map_of (files req) ''resume'' = Some (fname, bytes)"
    and "lower (snd (splitext fname)) \<noteq> ''.pdf''"
  shows "disk (upload lib req s st) = st
         \<and> (sess_user s \<noteq> None \<and> req_method req = POST
              \<and> strip (form_get req ''name'') \<noteq> [] \<and> strip (form_get req ''email'') \<noteq> []
              \<and> strip (form_get req ''skills'') \<noteq> [] \<and> fname \<noteq> [] \<longrightarrow>
              upload lib req s st
                = respond (Redirect ''upload'') [(''Only PDF resumes are allowed'', ''danger'')] s st)"
proof -
  from assms have no: "\<not> allowed_file (fst (the (map_of (files req) ''resume'')))"
    by (simp add: allowed_file_def ALLOWED_EXT_def)
  then have "\<not> accepted req s"
    by (simp add: accepted_def)
  then have "disk (upload lib req s st) = st"
    by (rule upload_not_accepted)
  moreover from no assms(1) have "sess_user s \<noteq> None \<and> req_method req = POST
              \<and> strip (form_get req ''name'') \<noteq> [] \<and> strip (form_get req ''email'') \<noteq> []
              \<and> strip (form_get req ''skills'') \<noteq> [] \<and> fname \<noteq> [] \<longrightarrow>
              upload lib req s st
                = respond (Redirect ''upload'') [(''Only PDF resumes are allowed'', ''danger'')] s st"
    by (auto simp add: upload_def Let_def resume_given_def)
  ultimately show ?thesis
    by blast
qed

theorem non_pdf_rejected_witness:
  "lower (snd (splitext ''resume.PDF.docx'')) = ''.docx''
   \<and> upload (scoring ''70'') (submission ''Al'' ''resume.PDF.docx'') applicant after_first_upload
       = respond (Redirect ''upload'') [(''Only PDF resumes are allowed'', ''danger'')] applicant after_first_upload
   \<and> disk (upload (scoring ''70'') (submission ''Al'' ''resume.PDF.docx'') applicant after_first_upload)
       = after_first_upload"
proof -
  have f: "map_of (files (submission ''Al'' ''resume.PDF.docx'')) ''resume'' = Some (''resume.PDF.docx'', ''%PDF-1.4'')"
    by (simp add: submission_def)
  have e: "lower (snd (splitext ''resume.PDF.docx'')) \<noteq> ''.pdf''"
    by (simp add: docx_extension)
  from non_pdf_rejected [OF f e, of "scoring ''70''" applicant after_first_upload] docx_fields docx_extension
  show ?thesis
    by (simp add: respond_def)
qed

end
